theory Spec2Isabelle
  imports Complex_Main "HOL-Library.AList" "HOL-Library.Multiset" "HOL-Library.Word"
begin

section \<open>Python results\<close>

text \<open>
  The exceptions the modelled functions can raise, and the three ways a call can end:
  it returns, it raises, or it waits in a polling loop (\<open>while cond: time.sleep(0.1)\<close>)
  whose condition only another thread can change.
\<close>

datatype py_error = AttributeError | KeyError | ValueError | IndexError | ZeroDivisionError
  | OverflowError

datatype 'a outcome = Returns 'a | Blocks | Raises py_error

section \<open>The frame pipe of \<open>wrap_ffmpeg.py\<close>\<close>

text \<open>
  \<open>FFmpegWrapper\<close> keeps the rendered frames that wait for the encoder in the dictionary
  \<open>images_to_pipe\<close> (frame index to raw image). A Python dictionary keeps its keys in
  insertion order and holds every key once: it is an association list handled with
  \<open>AList.update\<close> (assignment \<open>d[k] = v\<close>), \<open>AList.delete\<close> (\<open>d.pop(k)\<close>) and
  \<open>map_of\<close> (lookup); \<open>len(d.keys())\<close> is its length. An image is the byte string that
  \<open>subprocess.stdin.write\<close> receives; \<open>stdin\<close> is everything written so far.

  \<open>max_images_on_pipe_buffer\<close> and \<open>count\<close> are attributes that only
  \<open>pipe_writer_loop\<close> creates: the first is \<open>None\<close> until the loop has started.
\<close>

type_synonym image = "8 word list"

datatype writer_pc = NotStarted | Looping | Closing | Exited | Crashed

record ffmpeg_wrapper =
  stop_piping :: bool
  lock_writing :: bool
  images_to_pipe :: "(nat \<times> image) list"
  max_images_on_pipe_buffer :: "int option"
  count :: nat
  stdin :: "8 word list"
  stdin_closed :: bool
  writer :: writer_pc

text \<open>The last three assignments of \<open>configure_encoding\<close>, on a process whose pipe is fresh.\<close>

definition configure_encoding :: ffmpeg_wrapper where
  "configure_encoding =
     \<lparr>stop_piping = False, lock_writing = False, images_to_pipe = [],
      max_images_on_pipe_buffer = None, count = 0, stdin = [], stdin_closed = False,
      writer = NotStarted\<rparr>"

text \<open>
  \<open>write_to_pipe(index, image)\<close>: waits while the buffer holds
  \<open>max_images_on_pipe_buffer\<close> images or more, then assigns
  \<open>images_to_pipe[index] = image\<close>. There is no test whether \<open>index\<close> is already a key.
\<close>

definition write_to_pipe :: "nat \<Rightarrow> image \<Rightarrow> ffmpeg_wrapper \<Rightarrow> ffmpeg_wrapper outcome" where
  "write_to_pipe index img s =
     (case max_images_on_pipe_buffer s of
        None \<Rightarrow> Raises AttributeError
      | Some m \<Rightarrow>
          if int (length (images_to_pipe s)) \<ge> m then Blocks
          else Returns (s\<lparr>images_to_pipe := AList.update index img (images_to_pipe s)\<rparr>))"

text \<open>
  \<open>close_pipe\<close>: waits until the buffer is empty and no write is in flight, then sets
  \<open>stop_piping\<close>.
\<close>

definition close_pipe :: "ffmpeg_wrapper \<Rightarrow> ffmpeg_wrapper outcome" where
  "close_pipe s =
     (if length (images_to_pipe s) \<noteq> 0 then Blocks
      else if lock_writing s then Blocks
      else Returns (s\<lparr>stop_piping := True\<rparr>))"

text \<open>The arguments of \<open>pipe_writer_loop\<close>.\<close>

record writer_args =
  duration_seconds :: real
  fps :: real
  frame_count :: int
  max_images :: int
  show_status :: bool

text \<open>
  The status block at the end of an iteration only prints, but it divides: by \<open>fps\<close>,
  by \<open>duration_seconds\<close> and by \<open>current_time = count / fps\<close>. A zero divisor raises
  \<open>ZeroDivisionError\<close> inside the writer thread, which then dies without closing the
  stream.
\<close>

definition status_raises :: "writer_args \<Rightarrow> nat \<Rightarrow> bool" where
  "status_raises a c =
     (show_status a \<and> (fps a = 0 \<or> duration_seconds a = 0 \<or> real c / fps a = 0))"

definition after_count :: "writer_args \<Rightarrow> ffmpeg_wrapper \<Rightarrow> ffmpeg_wrapper" where
  "after_count a s =
     (let s1 = s\<lparr>count := count s + 1\<rparr>
      in if status_raises a (count s1) then s1\<lparr>writer := Crashed\<rparr> else s1\<lparr>writer := Looping\<rparr>)"

text \<open>
  One scheduling step of the thread that runs \<open>pipe_writer_loop\<close>. The thread shares
  \<open>images_to_pipe\<close> with the threads that call \<open>write_to_pipe\<close>, and those only read its
  length and add a key. So the thread is cut at its reads of the dictionary: entering the
  function; one pass of \<open>while not self.stop_piping\<close> (the membership test, and when it
  holds the \<open>pop\<close>, the write and the comparison with \<open>frame_count - 1\<close>; a key found by
  the test is still there at the \<open>pop\<close>, nobody else removes keys); one poll of
  \<open>close_pipe\<close>, which the loop calls after the last expected frame. \<open>lock_writing\<close> is
  set and reset inside one pass, so it is \<open>False\<close> at every cut.
\<close>

definition pipe_writer_loop_step :: "writer_args \<Rightarrow> ffmpeg_wrapper \<Rightarrow> ffmpeg_wrapper" where
  "pipe_writer_loop_step a s =
     (case writer s of
        NotStarted \<Rightarrow>
          s\<lparr>max_images_on_pipe_buffer := Some (max_images a), count := 0, writer := Looping\<rparr>
      | Looping \<Rightarrow>
          if stop_piping s then s\<lparr>stdin_closed := True, writer := Exited\<rparr>
          else (case map_of (images_to_pipe s) (count s) of
                  None \<Rightarrow> s
                | Some img \<Rightarrow>
                    let s1 = s\<lparr>images_to_pipe := AList.delete (count s) (images_to_pipe s),
                               stdin := stdin s @ img\<rparr>
                    in if int (count s) = frame_count a - 1 then s1\<lparr>writer := Closing\<rparr>
                       else after_count a s1)
      | Closing \<Rightarrow>
          (case close_pipe s of
             Returns s1 \<Rightarrow> after_count a s1
           | Blocks \<Rightarrow> s
           | Raises e \<Rightarrow> s\<lparr>writer := Crashed\<rparr>)
      | Exited \<Rightarrow> s
      | Crashed \<Rightarrow> s)"

text \<open>
  A schedule is the order in which the threads take their steps: a frame is submitted
  (its \<open>write_to_pipe\<close> stops waiting and stores it), or the writer thread takes a step.
  A submission that would still wait at its place in the schedule is not a possible
  schedule: \<open>run_schedule\<close> then gives \<open>Blocks\<close>.
\<close>

datatype event = Submit nat image | WriterStep

fun step_event :: "writer_args \<Rightarrow> event \<Rightarrow> ffmpeg_wrapper \<Rightarrow> ffmpeg_wrapper outcome" where
  "step_event a (Submit i img) s = write_to_pipe i img s"
| "step_event a WriterStep s = Returns (pipe_writer_loop_step a s)"

fun run_schedule :: "writer_args \<Rightarrow> event list \<Rightarrow> ffmpeg_wrapper \<Rightarrow> ffmpeg_wrapper outcome" where
  "run_schedule a [] s = Returns s"
| "run_schedule a (e # es) s =
     (case step_event a e s of
        Returns s1 \<Rightarrow> run_schedule a es s1
      | Blocks \<Rightarrow> Blocks
      | Raises err \<Rightarrow> Raises err)"






subsection \<open>Invariants of the frame pipe\<close>




subsection \<open>A concrete run\<close>

text \<open>
  Four frames of one to three bytes, submitted in the order 3, 1, 0, 2 while the writer
  runs, with room for three frames in the buffer.
\<close>

definition demo_args :: writer_args where
  "demo_args =
     \<lparr>duration_seconds = 2, fps = 2, frame_count = 4, max_images = 3, show_status = True\<rparr>"


text \<open>
  The same frames with room for two frames only, and the state after the writer has started
  and the frames 3 and 1 were submitted: the buffer is full and frame 0 is not in it.
\<close>

definition small_buffer_args :: writer_args where
  "small_buffer_args = demo_args\<lparr>max_images := 2\<rparr>"

definition full_buffer_state :: ffmpeg_wrapper where
  "full_buffer_state =
     \<lparr>stop_piping = False, lock_writing = False, images_to_pipe = [(3, [3, 3]), (1, [1])],
      max_images_on_pipe_buffer = Some 2, count = 0, stdin = [], stdin_closed = False,
      writer = Looping\<rparr>"

text \<open>The state after the writer has started and frame 0 was submitted once.\<close>

definition dup_state :: ffmpeg_wrapper where
  "dup_state =
     \<lparr>stop_piping = False, lock_writing = False, images_to_pipe = [(0, [1])],
      max_images_on_pipe_buffer = Some 3, count = 0, stdin = [], stdin_closed = False,
      writer = Looping\<rparr>"

section \<open>NumPy float arrays\<close>

text \<open>
  The arrays of \<open>ValuesInterpolator\<close> are one-dimensional NumPy arrays of \<open>float32\<close> or
  \<open>float64\<close>. An element is a value of IEEE 754 binary arithmetic: NaN, one of the two
  infinities, or a finite number, modelled as the rational it denotes. The two zeros are
  one value \<open>FNum 0\<close>: the sign of a zero is not modelled (it shows only in a division by
  zero, which takes the zero as positive here).

  A finite number of a format with \<open>p\<close> significant bits and the largest exponent \<open>emax\<close>
  is \<open>m * 2^(e - p + 1)\<close> with \<open>\<bar>m\<bar> < 2^p\<close> and \<open>1 - emax \<le> e \<le> emax\<close>; this includes
  the subnormal numbers (\<open>e = 1 - emax\<close>, \<open>\<bar>m\<bar> < 2^(p - 1)\<close>). \<open>fl_round d x\<close> rounds
  the rational \<open>x\<close> to the nearest number of the format \<open>d\<close>, ties to the even significand;
  a result whose exponent exceeds \<open>emax\<close>, that is of magnitude \<open>2^(emax + 1)\<close> or more,
  overflows to an infinity.

  \<open>bit_length\<close> is Python's \<open>int.bit_length\<close>; \<open>floor_log2 x\<close> is the exponent \<open>e\<close> with
  \<open>2^e \<le> x < 2^(e+1)\<close> for \<open>x > 0\<close>.
\<close>

function bit_length :: "int \<Rightarrow> int" where
  "bit_length n = (if n \<le> 0 then 0 else 1 + bit_length (n div 2))"
  by pat_completeness auto
termination
  by (relation "measure nat") auto

declare bit_length.simps [simp del]

definition floor_log2 :: "rat \<Rightarrow> int" where
  "floor_log2 x =
     (let (p, q) = quotient_of x; e = bit_length p - bit_length q
      in if 2 powi e \<le> x then e else e - 1)"

definition round_half_even :: "rat \<Rightarrow> int" where
  "round_half_even x =
     (let f = \<lfloor>x\<rfloor>; d = x - of_int f
      in if d < 1 / 2 then f else if 1 / 2 < d then f + 1 else if even f then f else f + 1)"

datatype np_dtype = Float32 | Float64

fun significand_bits :: "np_dtype \<Rightarrow> int" where
  "significand_bits Float32 = 24"
| "significand_bits Float64 = 53"

fun emax :: "np_dtype \<Rightarrow> int" where
  "emax Float32 = 127"
| "emax Float64 = 1023"

datatype fval = FNaN | FPosInf | FNegInf | FNum rat

definition fl_round :: "np_dtype \<Rightarrow> rat \<Rightarrow> fval" where
  "fl_round d x =
     (if x = 0 then FNum 0
      else let e = max (floor_log2 \<bar>x\<bar>) (1 - emax d);
               q = 2 powi (e - significand_bits d + 1);
               y = of_int (round_half_even (x / q)) * q
           in if emax d < floor_log2 \<bar>y\<bar> then (if 0 < y then FPosInf else FNegInf)
              else FNum y)"

text \<open>
  \<open>astype d\<close> converts a value to the format \<open>d\<close>. The arithmetic operations are those of
  IEEE 754: the exact result of two finite operands is rounded once, an infinity absorbs
  finite operands, and \<open>inf - inf\<close>, \<open>inf * 0\<close>, \<open>0 / 0\<close>, \<open>inf / inf\<close> and every operation
  on NaN give NaN. \<open>fsign\<close> is the sign of a value that is not NaN.
\<close>

fun astype :: "np_dtype \<Rightarrow> fval \<Rightarrow> fval" where
  "astype d (FNum x) = fl_round d x"
| "astype d v = v"

fun fneg :: "fval \<Rightarrow> fval" where
  "fneg (FNum x) = FNum (- x)"
| "fneg FPosInf = FNegInf"
| "fneg FNegInf = FPosInf"
| "fneg FNaN = FNaN"

fun fsign :: "fval \<Rightarrow> int" where
  "fsign (FNum x) = (if x = 0 then 0 else if 0 < x then 1 else - 1)"
| "fsign FPosInf = 1"
| "fsign FNegInf = - 1"
| "fsign FNaN = 0"

fun fadd :: "np_dtype \<Rightarrow> fval \<Rightarrow> fval \<Rightarrow> fval" where
  "fadd d (FNum a) (FNum b) = fl_round d (a + b)"
| "fadd d FNaN y = FNaN"
| "fadd d x FNaN = FNaN"
| "fadd d FPosInf FNegInf = FNaN"
| "fadd d FNegInf FPosInf = FNaN"
| "fadd d FPosInf y = FPosInf"
| "fadd d FNegInf y = FNegInf"
| "fadd d x FPosInf = FPosInf"
| "fadd d x FNegInf = FNegInf"

definition fsub :: "np_dtype \<Rightarrow> fval \<Rightarrow> fval \<Rightarrow> fval" where
  "fsub d x y = fadd d x (fneg y)"

fun fmul :: "np_dtype \<Rightarrow> fval \<Rightarrow> fval \<Rightarrow> fval" where
  "fmul d (FNum a) (FNum b) = fl_round d (a * b)"
| "fmul d FNaN y = FNaN"
| "fmul d x FNaN = FNaN"
| "fmul d x y =
     (let s = fsign x * fsign y
      in if s = 0 then FNaN else if 0 < s then FPosInf else FNegInf)"

fun fdiv :: "np_dtype \<Rightarrow> fval \<Rightarrow> fval \<Rightarrow> fval" where
  "fdiv d (FNum a) (FNum b) =
     (if b = 0 then (if a = 0 then FNaN else if 0 < a then FPosInf else FNegInf)
      else fl_round d (a / b))"
| "fdiv d FNaN y = FNaN"
| "fdiv d x FNaN = FNaN"
| "fdiv d (FNum a) y = FNum 0"
| "fdiv d x (FNum b) = (if (0 \<le> b) = (x = FPosInf) then FPosInf else FNegInf)"
| "fdiv d x y = FNaN"

text \<open>
  \<open>result_type\<close> is NumPy's promotion of two array types.
\<close>

fun result_type :: "np_dtype \<Rightarrow> np_dtype \<Rightarrow> np_dtype" where
  "result_type Float32 Float32 = Float32"
| "result_type d1 d2 = Float64"

record ndarray =
  dtype :: np_dtype
  items :: "fval list"

text \<open>
  An elementwise operation of two one-dimensional arrays: shapes \<open>(n,)\<close> and \<open>(n,)\<close>
  combine elementwise, an array of shape \<open>(1,)\<close> is broadcast over the other one, and any
  other pair of shapes raises \<open>ValueError\<close>. The operation is computed in the promoted
  type, which holds the elements of both arrays exactly.
\<close>

definition broadcast2 :: "('a \<Rightarrow> 'a \<Rightarrow> 'a) \<Rightarrow> 'a list \<Rightarrow> 'a list \<Rightarrow> py_error + 'a list" where
  "broadcast2 f xs ys =
     (if length xs = length ys then Inr (map2 f xs ys)
      else if length xs = 1 then Inr (map (f (hd xs)) ys)
      else if length ys = 1 then Inr (map (\<lambda>x. f x (hd ys)) xs)
      else Inl ValueError)"

definition np_binop ::
  "(np_dtype \<Rightarrow> fval \<Rightarrow> fval \<Rightarrow> fval) \<Rightarrow> ndarray \<Rightarrow> ndarray \<Rightarrow> py_error + ndarray" where
  "np_binop f a b =
     (let d = result_type (dtype a) (dtype b)
      in case broadcast2 (f d) (items a) (items b) of
           Inl e \<Rightarrow> Inl e
         | Inr zs \<Rightarrow> Inr \<lparr>dtype = d, items = zs\<rparr>)"

definition np_zeros :: "nat \<Rightarrow> np_dtype \<Rightarrow> ndarray" where
  "np_zeros n d = \<lparr>dtype = d, items = replicate n (FNum 0)\<rparr>"

text \<open>
  \<open>np.linspace(start, stop, num)\<close> with the default \<open>endpoint = True\<close>, in \<open>float64\<close>:
  NumPy computes \<open>delta = stop - start\<close> and, for \<open>num > 1\<close>, \<open>step = delta / (num - 1)\<close>;
  the elements are \<open>arange(0, num) * step + start\<close>, or \<open>arange(0, num) / (num - 1) * delta
  + start\<close> when the step is zero, or \<open>arange(0, num) * delta + start\<close> when \<open>num = 1\<close>; then
  \<open>stop\<close> is stored into the last element when \<open>num > 1\<close>. (The indices and \<open>num - 1\<close> are
  taken as exact \<open>float64\<close> numbers, which they are below \<open>2^53\<close>.)
\<close>

definition np_linspace :: "rat \<Rightarrow> rat \<Rightarrow> nat \<Rightarrow> ndarray" where
  "np_linspace start stop num =
     (let d = Float64;
          first = fl_round d start;
          last = fl_round d stop;
          delta = fsub d last first;
          n1 = FNum (of_nat (num - 1));
          step = fdiv d delta n1;
          y = (\<lambda>i. if num = 1 then fmul d (FNum (of_nat i)) delta
                     else if step = FNum 0 then fmul d (fdiv d (FNum (of_nat i)) n1) delta
                     else fmul d (FNum (of_nat i)) step);
          ys = map (\<lambda>i. fadd d (y i) first) [0..<num]
      in \<lparr>dtype = d, items = (if 1 < num then butlast ys @ [last] else ys)\<rparr>)"

section \<open>\<open>ValuesInterpolator\<close> of \<open>run_shaders.py\<close>\<close>

text \<open>
  \<open>self.interpolaters\<close> is a dictionary from a channel name to the dictionary with the
  keys \<open>current\<close>, \<open>target\<close> and \<open>ratios\<close>.
\<close>

record interpolater =
  current :: ndarray
  target :: ndarray
  ratios :: ndarray

type_synonym values_interpolator = "(string \<times> interpolater) list"

definition add_interpolater ::
  "string \<Rightarrow> nat \<Rightarrow> fval option \<Rightarrow> values_interpolator \<Rightarrow> values_interpolator" where
  "add_interpolater name n fixed_ratio s =
     (let rs = (case fixed_ratio of
                  None \<Rightarrow> np_linspace 0 1 n
                | Some r \<Rightarrow> \<lparr>dtype = Float32, items = replicate n (astype Float32 r)\<rparr>)
      in AList.update name
           \<lparr>current = np_zeros n Float32, target = np_zeros n Float32, ratios = rs\<rparr> s)"

text \<open>
  \<open>next(name, feed, mode)\<close>. The mode and what is fed go together: \<open>fill\<close> and \<open>add\<close> are
  called with a Python float (any \<open>float64\<close> value, also an infinity or NaN; a scalar is
  converted to the type of the array it meets, where a large one overflows to infinity),
  \<open>replace\<close> with an array; \<open>Add_array\<close> is \<open>target += feed\<close> for an array, computed in the
  promoted type and stored in the target's own type, refused unless the result has the
  target's shape; any other mode string leaves the target as it is. \<open>replace\<close> stores the
  fed array itself, whatever its length and type.

  The new \<open>current\<close> is \<open>current + (target - current) * ratios\<close>: three array operations,
  each of which can raise on shapes that do not fit. An exception leaves \<open>current\<close> as it
  was, after the target is already changed: \<open>interpolator_next\<close> returns the new state and
  the exception, if any.
\<close>

datatype feed = Fill fval | Replace ndarray | Add fval | Add_array ndarray | Other_mode

fun set_target :: "feed \<Rightarrow> ndarray \<Rightarrow> py_error + ndarray" where
  "set_target (Fill v) t = Inr (t\<lparr>items := map (\<lambda>_. astype (dtype t) v) (items t)\<rparr>)"
| "set_target (Replace a) t = Inr a"
| "set_target (Add v) t =
     Inr (t\<lparr>items := map (\<lambda>x. fadd (dtype t) x (astype (dtype t) v)) (items t)\<rparr>)"
| "set_target (Add_array a) t =
     (if length (items a) = length (items t) \<or> length (items a) = 1 then
        (case np_binop fadd t a of
           Inl e \<Rightarrow> Inl e
         | Inr r \<Rightarrow> Inr (t\<lparr>items := map (astype (dtype t)) (items r)\<rparr>))
      else Inl ValueError)"
| "set_target Other_mode t = Inr t"

definition interpolate :: "interpolater \<Rightarrow> py_error + ndarray" where
  "interpolate sc =
     (case np_binop fsub (target sc) (current sc) of
        Inl e \<Rightarrow> Inl e
      | Inr d \<Rightarrow>
          (case np_binop fmul d (ratios sc) of
             Inl e \<Rightarrow> Inl e
           | Inr m \<Rightarrow> np_binop fadd (current sc) m))"

definition interpolator_next ::
  "string \<Rightarrow> feed \<Rightarrow> values_interpolator \<Rightarrow> values_interpolator \<times> py_error option" where
  "interpolator_next name fd s =
     (case map_of s name of
        None \<Rightarrow> (s, Some KeyError)
      | Some sc \<Rightarrow>
          (case set_target fd (target sc) of
             Inl e \<Rightarrow> (s, Some e)
           | Inr t \<Rightarrow>
               let sc1 = sc\<lparr>target := t\<rparr>; s1 = AList.update name sc1 s
               in (case interpolate sc1 of
                     Inl e \<Rightarrow> (s1, Some e)
                   | Inr c \<Rightarrow> (AList.update name (sc1\<lparr>current := c\<rparr>) s1, None))))"

text \<open>A sequence of calls of \<open>next\<close>, by a caller that goes on after an exception.\<close>

fun interpolator_steps :: "(string \<times> feed) list \<Rightarrow> values_interpolator \<Rightarrow> values_interpolator" where
  "interpolator_steps [] s = s"
| "interpolator_steps ((name, fd) # calls) s =
     interpolator_steps calls (fst (interpolator_next name fd s))"

subsection \<open>Predicates about channels\<close>

text \<open>
  \<open>representable d x\<close>: the rational \<open>x\<close> is a finite number of the format \<open>d\<close>.
  \<open>number_of d v\<close>: the value \<open>v\<close> is a finite number of the format \<open>d\<close>, neither NaN
  nor an infinity. \<open>exact_step d t c\<close>: the target element \<open>t\<close> and the current element
  \<open>c\<close> are finite, and \<open>t\<close> and \<open>t - c\<close> are numbers of the format \<open>d\<close>.

  \<open>chan_ok\<close>: the channel's current and ratio arrays are not empty and their first
  elements are zero. \<open>target_head_finite chan s\<close>: the channel \<open>chan\<close> exists in \<open>s\<close>, its
  target array is not empty, and the first element of the target is a finite number of the
  target's type. \<open>target_heads_finite chan calls s\<close>: this holds after each of the \<open>calls\<close>,
  made one after the other from the state \<open>s\<close>.
\<close>

definition representable :: "np_dtype \<Rightarrow> rat \<Rightarrow> bool" where
  "representable d x \<longleftrightarrow> fl_round d x = FNum x"


fun exact_step :: "np_dtype \<Rightarrow> fval \<Rightarrow> fval \<Rightarrow> bool" where
  "exact_step d (FNum t) (FNum c) = (representable d t \<and> representable d (t - c))"
| "exact_step d t c = False"




subsection \<open>Concrete channels\<close>

text \<open>
  The channel the renderer creates for the FFT bars, with two bars and the fixed ratio 1,
  its state after the value 1 was fed once, and after \<open>2^-30\<close> was fed next; a list of
  calls on a channel of two elements without a fixed ratio, the third of which raises
  \<open>ValueError\<close>; and
  two lists of calls after which the target of such a channel is infinite: \<open>2^127\<close> added
  twice, which overflows \<open>float32\<close>, and an infinity fed directly.
\<close>

definition fft_channel :: values_interpolator where
  "fft_channel = add_interpolater ''mmv_fft'' 2 (Some (FNum 1)) []"

definition fft_channel_at_one :: values_interpolator where
  "fft_channel_at_one =
     [(''mmv_fft'',
       \<lparr>current = \<lparr>dtype = Float32, items = [FNum 1, FNum 1]\<rparr>,
        target = \<lparr>dtype = Float32, items = [FNum 1, FNum 1]\<rparr>,
        ratios = \<lparr>dtype = Float32, items = [FNum 1, FNum 1]\<rparr>\<rparr>)]"

definition fft_channel_after :: values_interpolator where
  "fft_channel_after =
     [(''mmv_fft'',
       \<lparr>current = \<lparr>dtype = Float32, items = [FNum 0, FNum 0]\<rparr>,
        target = \<lparr>dtype = Float32, items = [FNum (1 / 2 ^ 30), FNum (1 / 2 ^ 30)]\<rparr>,
        ratios = \<lparr>dtype = Float32, items = [FNum 1, FNum 1]\<rparr>\<rparr>)]"


definition overflowing_calls :: "(string \<times> feed) list" where
  "overflowing_calls = [(''mmv_rms_r'', Add (FNum (2 ^ 127))), (''mmv_rms_r'', Add (FNum (2 ^ 127)))]"

definition infinite_calls :: "(string \<times> feed) list" where
  "infinite_calls = [(''mmv_rms_r'', Fill FPosInf)]"

section \<open>Audio analysis of \<open>cmn_audio.py\<close>\<close>

text \<open>
  Samples, frequencies and magnitudes are real numbers: a sample stands for the finite
  floating-point number the decoder produced. The claims of this part are about which
  statistic is computed, in which order and how many values are returned, and which
  exception is raised.

  The library functions that are not among the sources appear as parameters:
  \<open>Fourier.binned_fft\<close>, which returns the pair of the bin frequencies and the bin values,
  \<open>samplerate.resample\<close> with its ratio, \<open>Functions.value_on_line_of_two_points\<close>, and the
  arithmetic of NumPy's \<open>float64\<close> scalars on finite numbers: the sum of two numbers, the
  quotient of a number by a Python integer, and \<open>round(x, ndigits)\<close>, which NumPy computes as
  \<open>rint(x * 10^ndigits) / 10^ndigits\<close> in \<open>float64\<close>. Each of the three gives a finite
  number, an infinity (on overflow) or NaN. The model fixes where they are applied, not
  the digits they return.
\<close>

datatype npfloat = NaN | Fin real | PosInf | NegInf

record band =
  sample_rate :: int
  start_freq :: real
  end_freq :: real

record libraries =
  binned_fft :: "real list \<Rightarrow> int \<Rightarrow> int \<Rightarrow> real list \<times> real list"
  samplerate_resample :: "real list \<Rightarrow> real \<Rightarrow> real list"
  value_on_line_of_two_points :: "real \<Rightarrow> real \<Rightarrow> real \<Rightarrow> real \<Rightarrow> real \<Rightarrow> real"
  float_add :: "real \<Rightarrow> real \<Rightarrow> npfloat"
  float_div :: "real \<Rightarrow> int \<Rightarrow> npfloat"
  float_round :: "real \<Rightarrow> nat \<Rightarrow> npfloat"

text \<open>
  The three operations on all values of \<open>float64\<close>: NaN stays NaN, an infinity absorbs a
  finite number, and the sum of the two opposite infinities is NaN. The quotient is taken
  by a positive integer (the code divides by 2).
\<close>

fun nf_add :: "libraries \<Rightarrow> npfloat \<Rightarrow> npfloat \<Rightarrow> npfloat" where
  "nf_add libs (Fin a) (Fin b) = float_add libs a b"
| "nf_add libs NaN y = NaN"
| "nf_add libs x NaN = NaN"
| "nf_add libs PosInf NegInf = NaN"
| "nf_add libs NegInf PosInf = NaN"
| "nf_add libs PosInf y = PosInf"
| "nf_add libs NegInf y = NegInf"
| "nf_add libs x PosInf = PosInf"
| "nf_add libs x NegInf = NegInf"

fun nf_div :: "libraries \<Rightarrow> npfloat \<Rightarrow> int \<Rightarrow> npfloat" where
  "nf_div libs (Fin a) c = float_div libs a c"
| "nf_div libs x c = x"

fun nf_round :: "libraries \<Rightarrow> npfloat \<Rightarrow> nat \<Rightarrow> npfloat" where
  "nf_round libs (Fin a) ndigits = float_round libs a ndigits"
| "nf_round libs x ndigits = x"

text \<open>
  \<open>np.median\<close> of a one-dimensional array of finite numbers: the middle element of the
  sorted array, or for an even length the mean of the two middle ones, their sum divided
  by 2; NaN for an empty array. \<open>np.mean\<close> and \<open>np.std\<close> are taken by their exact values,
  the arithmetic mean and the root of the mean squared deviation from the mean. \<open>argmin\<close>
  is the first index of the smallest element, and raises \<open>ValueError\<close> on an empty array.
  \<open>rint\<close> rounds a real to the nearest integer, halves to the even one.
\<close>

definition np_median :: "libraries \<Rightarrow> real list \<Rightarrow> npfloat" where
  "np_median libs xs =
     (if xs = [] then NaN
      else let s = sort xs; n = length xs
           in if odd n then Fin (s ! (n div 2))
              else nf_div libs (float_add libs (s ! (n div 2 - 1)) (s ! (n div 2))) 2)"

definition np_mean :: "real list \<Rightarrow> npfloat" where
  "np_mean xs = (if xs = [] then NaN else Fin (sum_list xs / real (length xs)))"

definition np_std :: "real list \<Rightarrow> npfloat" where
  "np_std xs =
     (if xs = [] then NaN
      else let m = sum_list xs / real (length xs)
           in Fin (sqrt (sum_list (map (\<lambda>x. (x - m)\<^sup>2) xs) / real (length xs))))"

definition np_argmin :: "real list \<Rightarrow> py_error + nat" where
  "np_argmin xs =
     (case xs of
        [] \<Rightarrow> Inl ValueError
      | y # ys \<Rightarrow> Inr (length (takeWhile (\<lambda>x. x \<noteq> fold min ys y) xs)))"

definition rint :: "real \<Rightarrow> int" where
  "rint x =
     (let f = \<lfloor>x\<rfloor>; d = x - of_int f
      in if d < 1 / 2 then f else if 1 / 2 < d then f + 1 else if even f then f else f + 1)"

text \<open>
  Modelled from the spec: \<open>DataUtils.list_items_in_between\<close> is not among the sources; the
  specification says that the note frequencies inside \<open>[start_freq, end_freq]\<close> are taken.
\<close>

definition list_items_in_between :: "real list \<Rightarrow> real \<Rightarrow> real \<Rightarrow> real list" where
  "list_items_in_between xs lo hi = filter (\<lambda>x. lo \<le> x \<and> x \<le> hi) xs"

text \<open>
  The attributes of \<open>AudioProcessing\<close> that the analysis reads: \<open>config\<close> is \<open>None\<close> until the
  caller assigns the dictionary of bands (kept in its order), and the note frequencies are
  the list that \<open>__init__\<close> computes once.
\<close>

record audio_processing =
  config :: "(string \<times> band) list option"
  piano_keys_frequencies :: "real list"

text \<open>
  \<open>resample\<close>: the input itself when both rates are equal, and otherwise the library's
  resampling by the ratio \<open>new_sample_rate / original_sample_rate\<close>, a division of two
  Python integers that raises \<open>ZeroDivisionError\<close> on a zero divisor.
\<close>

definition resample :: "libraries \<Rightarrow> real list \<Rightarrow> int \<Rightarrow> int \<Rightarrow> py_error + real list" where
  "resample libs data original_sample_rate new_sample_rate =
     (if new_sample_rate = original_sample_rate then Inr data
      else if original_sample_rate = 0 then Inl ZeroDivisionError
      else Inr (samplerate_resample libs data
                  (real_of_int new_sample_rate / real_of_int original_sample_rate)))"

text \<open>\<open>find_nearest\<close>: the index of the element nearest to the value, and that element.\<close>

definition find_nearest :: "real list \<Rightarrow> real \<Rightarrow> py_error + nat \<times> real" where
  "find_nearest array v =
     (case np_argmin (map (\<lambda>x. \<bar>x - v\<bar>) array) of
        Inl e \<Rightarrow> Inl e
      | Inr index \<Rightarrow> Inr (index, array ! index))"

text \<open>
  A loop that appends to \<open>processed\<close> what each pass computes, and ends at the first
  exception.
\<close>

fun collect :: "('a \<Rightarrow> py_error + 'b list) \<Rightarrow> 'a list \<Rightarrow> py_error + 'b list" where
  "collect f [] = Inr []"
| "collect f (x # xs) =
     (case f x of
        Inl e \<Rightarrow> Inl e
      | Inr ys \<Rightarrow> (case collect f xs of Inl e \<Rightarrow> Inl e | Inr zs \<Rightarrow> Inr (ys @ zs)))"

text \<open>
  The body of \<open>for freq in wanted_freqs\<close>: the bin nearest to the note, its value (an
  \<open>IndexError\<close> when the values are fewer than the frequencies), and the scaling by the
  line through \<open>(20, 0.2)\<close> and \<open>(20000, 62)\<close> taken at the bin's index.
\<close>

definition process_freq :: "libraries \<Rightarrow> real list \<times> real list \<Rightarrow> real \<Rightarrow> py_error + real list" where
  "process_freq libs fft freq =
     (case find_nearest (fst fft) freq of
        Inl e \<Rightarrow> Inl e
      | Inr nearest \<Rightarrow>
          if length (snd fft) \<le> fst nearest then Inl IndexError
          else let v = snd fft ! fst nearest;
                   flatten_scalar =
                     value_on_line_of_two_points libs 20 (2 / 10) 20000 62 (real (fst nearest))
               in Inr [\<bar>v\<bar> * flatten_scalar * 6])"

text \<open>The body of \<open>for _, value in self.config.items()\<close>, for one channel and one band.\<close>

definition process_band ::
  "audio_processing \<Rightarrow> libraries \<Rightarrow> int \<Rightarrow> real list \<Rightarrow> band \<Rightarrow> py_error + real list" where
  "process_band ap libs original_sample_rate data b =
     (let wanted_freqs =
            list_items_in_between (piano_keys_frequencies ap) (start_freq b) (end_freq b)
      in case resample libs data original_sample_rate (sample_rate b) of
           Inl e \<Rightarrow> Inl e
         | Inr resampled \<Rightarrow>
             collect (process_freq libs
                        (binned_fft libs resampled (sample_rate b) original_sample_rate))
               wanted_freqs)"

text \<open>
  \<open>get_info_on_audio_slice\<close> is a generator of three named results. Its three parts are
  the three definitions below; the generator's result is the list of what it has yielded
  and the exception that ended it, if any. The batch is a two-dimensional array, a list
  of rows of one length; \<open>audio_slice[1]\<close> raises \<open>IndexError\<close> when it has fewer than two
  rows. The loop \<open>for data in audio_slice\<close> is the outer one and the loop over the
  configuration the inner one.

  The average amplitudes are the medians of the absolute values of the two channels and
  \<open>sum(average_amplitudes) / 2\<close>, where \<open>sum\<close> starts from 0 and adds the two medians one
  after the other; each of the three is passed through \<open>round(value, 8)\<close>.
\<close>

datatype info = Triple npfloat npfloat npfloat | Magnitudes "real list"

definition average_amplitudes :: "libraries \<Rightarrow> real list list \<Rightarrow> info" where
  "average_amplitudes libs batch =
     (let a0 = np_median libs (map abs (batch ! 0));
          a1 = np_median libs (map abs (batch ! 1));
          a2 = nf_div libs (nf_add libs (nf_add libs (Fin 0) a0) a1) 2
      in Triple (nf_round libs a0 8) (nf_round libs a1 8) (nf_round libs a2 8))"

definition standard_deviations :: "real list list \<Rightarrow> info" where
  "standard_deviations batch =
     (let mono = map2 (\<lambda>l r. (l + r) / 2) (batch ! 0) (batch ! 1)
      in Triple (np_std (batch ! 0)) (np_std (batch ! 1)) (np_std mono))"

definition processed_fft ::
  "audio_processing \<Rightarrow> libraries \<Rightarrow> real list list \<Rightarrow> int \<Rightarrow> py_error + real list" where
  "processed_fft ap libs batch original_sample_rate =
     (case config ap of
        None \<Rightarrow> Inl AttributeError
      | Some bands \<Rightarrow>
          collect (\<lambda>data. collect (\<lambda>kv. process_band ap libs original_sample_rate data (snd kv))
                            bands)
            batch)"

definition get_info_on_audio_slice ::
  "audio_processing \<Rightarrow> libraries \<Rightarrow> real list list \<Rightarrow> int \<Rightarrow> (string \<times> info) list \<times> py_error option" where
  "get_info_on_audio_slice ap libs batch original_sample_rate =
     (if length batch < 2 then ([], Some IndexError)
      else
        let yielded = [(''average_amplitudes'', average_amplitudes libs batch),
                       (''standard_deviations'', standard_deviations batch)]
        in case processed_fft ap libs batch original_sample_rate of
             Inl e \<Rightarrow> (yielded, Some e)
           | Inr processed \<Rightarrow> (yielded @ [(''fft'', Magnitudes processed)], None))"

text \<open>
  \<open>slice_audio\<close> of the same class and the lines of \<open>MMVSkiaCore.run\<close> that call it. A Python
  slice \<open>xs[start:stop]\<close> counts a negative bound from the end and clips both bounds to the
  list; \<open>row[0:len(src)] = src\<close> stores \<open>src\<close> at the front of \<open>row\<close>, broadcasts a single
  element, and raises \<open>ValueError\<close> for any other length that does not fit.
\<close>

definition py_slice :: "'a list \<Rightarrow> int \<Rightarrow> int \<Rightarrow> 'a list" where
  "py_slice xs start stop =
     (let n = int (length xs);
          a = (if start < 0 then max (start + n) 0 else min start n);
          b = (if stop < 0 then max (stop + n) 0 else min stop n)
      in take (nat (b - a)) (drop (nat a) xs))"

definition assign_prefix :: "real list \<Rightarrow> real list \<Rightarrow> py_error + real list" where
  "assign_prefix row src =
     (let k = min (length src) (length row)
      in if length src = k then Inr (src @ drop k row)
         else if length src = 1 then Inr (map (\<lambda>_. hd src) (take k row) @ drop k row)
         else Inl ValueError)"

record sliced =
  audio_slice :: "real list list"
  average_value :: npfloat

definition slice_audio ::
  "real list list \<Rightarrow> real list \<Rightarrow> int \<Rightarrow> int \<Rightarrow> int \<Rightarrow> int option \<Rightarrow> py_error + sliced" where
  "slice_audio stereo_data mono_data rate start_cut end_cut batch_size =
     (if length stereo_data < 2 then Inl IndexError
      else
        let left_slice = py_slice (stereo_data ! 0) start_cut end_cut;
            right_slice = py_slice (stereo_data ! 1) start_cut end_cut;
            rows =
              (case batch_size of
                 None \<Rightarrow> Inr [left_slice, right_slice]
               | Some b \<Rightarrow>
                   if b < 0 then Inl ValueError
                   else let zeros = replicate (nat b) 0
                        in (case assign_prefix zeros left_slice of
                              Inl e \<Rightarrow> Inl e
                            | Inr row0 \<Rightarrow>
                                (case assign_prefix zeros right_slice of
                                   Inl e \<Rightarrow> Inl e
                                 | Inr row1 \<Rightarrow> Inr [row0, row1, zeros])))
        in case rows of
             Inl e \<Rightarrow> Inl e
           | Inr rs \<Rightarrow>
               Inr \<lparr>audio_slice = rs,
                    average_value = np_mean (map abs (py_slice mono_data start_cut end_cut))\<rparr>)"

text \<open>
  In \<open>run\<close>: the step with the audio offset, capped at the last step; the start of the
  slice in samples, \<open>int(max((1 / fps) * this_step, 0) * sample_rate)\<close>; and the call of
  \<open>slice_audio\<close> with the slice's end at \<open>start + batch_size\<close>.

  The start is computed in Python floats, which are \<open>float64\<close>: \<open>1 / fps\<close> raises
  \<open>ZeroDivisionError\<close> for a zero frame rate and is rounded; an integer that meets a float
  is converted to a float, which raises \<open>OverflowError\<close> when it is too large; each
  product is rounded; \<open>max(t, 0)\<close> is the integer 0 when \<open>t\<close> is negative and \<open>t\<close> otherwise;
  \<open>int\<close> truncates towards zero and raises \<open>ValueError\<close> on NaN and \<open>OverflowError\<close> on an
  infinity. The frame rate is a finite number, given by its exact value.
\<close>

definition int_to_float :: "int \<Rightarrow> py_error + fval" where
  "int_to_float n =
     (case fl_round Float64 (of_int n) of FNum x \<Rightarrow> Inr (FNum x) | _ \<Rightarrow> Inl OverflowError)"

definition float_to_int :: "fval \<Rightarrow> py_error + int" where
  "float_to_int v =
     (case v of
        FNum x \<Rightarrow> Inr (if 0 \<le> x then \<lfloor>x\<rfloor> else \<lceil>x\<rceil>)
      | FNaN \<Rightarrow> Inl ValueError
      | _ \<Rightarrow> Inl OverflowError)"

definition this_step :: "int \<Rightarrow> int \<Rightarrow> int \<Rightarrow> int" where
  "this_step total_steps offset step =
     (if step + offset \<ge> total_steps - 1 then total_steps - 1 else step + offset)"

definition this_time_in_samples :: "rat \<Rightarrow> int \<Rightarrow> int \<Rightarrow> py_error + int" where
  "this_time_in_samples video_fps rate s =
     (if video_fps = 0 then Inl ZeroDivisionError
      else case int_to_float s of
             Inl e \<Rightarrow> Inl e
           | Inr fs \<Rightarrow>
               let t = fmul Float64 (fdiv Float64 (FNum 1) (FNum video_fps)) fs
               in if fsign t < 0 then Inr 0
                  else (case int_to_float rate of
                          Inl e \<Rightarrow> Inl e
                        | Inr fr \<Rightarrow> float_to_int (fmul Float64 t fr)))"

definition slice_for_step ::
  "real list list \<Rightarrow> real list \<Rightarrow> int \<Rightarrow> rat \<Rightarrow> int \<Rightarrow> int \<Rightarrow> int \<Rightarrow> int \<Rightarrow> py_error + sliced" where
  "slice_for_step stereo_data mono_data rate video_fps total_steps offset batch_size step =
     (case this_time_in_samples video_fps rate (this_step total_steps offset step) of
        Inl e \<Rightarrow> Inl e
      | Inr start \<Rightarrow>
          slice_audio stereo_data mono_data rate start (start + batch_size) (Some batch_size))"

subsection \<open>Notions used in the statements\<close>

text \<open>
  \<open>libs_ok\<close>: the FFT returns at least one bin and a value for every bin frequency.
  \<open>nearest_index\<close>, \<open>scaled_magnitude\<close>, \<open>resampled\<close> and \<open>band_magnitudes\<close> are the values the
  loops compute when nothing raises. \<open>fft_channel_outer\<close> lists them with the channels as
  the outer grouping; \<open>fft_band_outer\<close> follows the specification's words, with the bands
  as the outer grouping. \<open>wanted_count\<close> is the number of note frequencies inside the bands'
  ranges, summed over the bands. \<open>average_amplitudes_by_spec\<close> follows the specification's
  words: the medians of the absolute values of left, right and mono. \<open>zero_padded n xs\<close>
  is the first \<open>n\<close> elements of \<open>xs\<close>, filled with zeros to the length \<open>n\<close>.
\<close>

definition libs_ok :: "libraries \<Rightarrow> bool" where
  "libs_ok libs \<longleftrightarrow>
     (\<forall>data rate original.
        fst (binned_fft libs data rate original) \<noteq> [] \<and>
        length (fst (binned_fft libs data rate original)) \<le>
          length (snd (binned_fft libs data rate original)))"

definition nearest_index :: "real list \<Rightarrow> real \<Rightarrow> nat" where
  "nearest_index array v =
     length (takeWhile (\<lambda>d. d \<noteq> Min (set (map (\<lambda>x. \<bar>x - v\<bar>) array)))
               (map (\<lambda>x. \<bar>x - v\<bar>) array))"

definition scaled_magnitude :: "libraries \<Rightarrow> real list \<times> real list \<Rightarrow> real \<Rightarrow> real" where
  "scaled_magnitude libs fft freq =
     (let i = nearest_index (fst fft) freq
      in \<bar>snd fft ! i\<bar> * value_on_line_of_two_points libs 20 (2 / 10) 20000 62 (real i) * 6)"

definition resampled :: "libraries \<Rightarrow> real list \<Rightarrow> int \<Rightarrow> int \<Rightarrow> real list" where
  "resampled libs data original_sample_rate new_sample_rate =
     (if new_sample_rate = original_sample_rate then data
      else samplerate_resample libs data
             (real_of_int new_sample_rate / real_of_int original_sample_rate))"

definition band_magnitudes ::
  "audio_processing \<Rightarrow> libraries \<Rightarrow> int \<Rightarrow> real list \<Rightarrow> band \<Rightarrow> real list" where
  "band_magnitudes ap libs original_sample_rate data b =
     map (scaled_magnitude libs
            (binned_fft libs (resampled libs data original_sample_rate (sample_rate b))
               (sample_rate b) original_sample_rate))
       (list_items_in_between (piano_keys_frequencies ap) (start_freq b) (end_freq b))"

definition fft_channel_outer ::
  "audio_processing \<Rightarrow> libraries \<Rightarrow> real list list \<Rightarrow> int \<Rightarrow> (string \<times> band) list \<Rightarrow> real list" where
  "fft_channel_outer ap libs batch original_sample_rate bands =
     concat (map (\<lambda>data. concat (map (\<lambda>kv. band_magnitudes ap libs original_sample_rate data (snd kv))
                                   bands))
               batch)"

definition fft_band_outer ::
  "audio_processing \<Rightarrow> libraries \<Rightarrow> real list list \<Rightarrow> int \<Rightarrow> (string \<times> band) list \<Rightarrow> real list" where
  "fft_band_outer ap libs batch original_sample_rate bands =
     concat (map (\<lambda>kv. concat (map (\<lambda>data. band_magnitudes ap libs original_sample_rate data (snd kv))
                                 batch))
               bands)"

definition wanted_count :: "audio_processing \<Rightarrow> (string \<times> band) list \<Rightarrow> nat" where
  "wanted_count ap bands =
     sum_list (map (\<lambda>kv. length (list_items_in_between (piano_keys_frequencies ap)
                                     (start_freq (snd kv)) (end_freq (snd kv))))
                 bands)"



subsection \<open>Concrete inputs\<close>

text \<open>
  Two bands that each hold one of two note frequencies, library functions that return
  two bins whose values depend on the channel's data, with exact arithmetic for the
  \<open>float64\<close> operations (which is what \<open>float64\<close> gives on the small integers of the
  examples), and a track of five samples.
\<close>

definition demo_libs :: libraries where
  "demo_libs =
     \<lparr>binned_fft = (\<lambda>data rate original. ([100, 1000], [sum_list data, 2 * sum_list data])),
      samplerate_resample = (\<lambda>data ratio. data),
      value_on_line_of_two_points = (\<lambda>xa ya xb yb x. 1),
      float_add = (\<lambda>a b. Fin (a + b)),
      float_div = (\<lambda>a c. Fin (a / of_int c)),
      float_round = (\<lambda>x n. Fin (of_int (rint (x * 10 ^ n)) / 10 ^ n))\<rparr>"

definition demo_processing :: audio_processing where
  "demo_processing =
     \<lparr>config = Some [(''bass'', \<lparr>sample_rate = 48000, start_freq = 50, end_freq = 200\<rparr>),
                     (''treble'', \<lparr>sample_rate = 48000, start_freq = 500, end_freq = 2000\<rparr>)],
      piano_keys_frequencies = [100, 1000]\<rparr>"

definition demo_track :: "real list list" where
  "demo_track = [[1, 2, 3, 4, 5], [6, 7, 8, 9, 10]]"

section \<open>Verification of the frame pipe\<close>


































text \<open>
  The counterexample to C1 as stated: four frames in the order 3, 1, 0, 2 with room for two
  frames. After the writer has started and the frames 3 and 1 are stored, a step of the
  writer changes nothing (frame 0 is not there), the submissions of frame 0 and of frame 2
  both wait, and the stream is empty: nothing can happen any more, and the stream never
  holds payload 0.
\<close>

theorem full_buffer_deadlock_counterexample:
  "run_schedule small_buffer_args [WriterStep, Submit 3 [3, 3], Submit 1 [1]] configure_encoding =
     Returns full_buffer_state \<and>
   pipe_writer_loop_step small_buffer_args full_buffer_state = full_buffer_state \<and>
   write_to_pipe 0 [0, 0, 0] full_buffer_state = Blocks \<and>
   write_to_pipe 2 [2] full_buffer_state = Blocks \<and>
   stdin full_buffer_state = []"
  by (simp add: small_buffer_args_def full_buffer_state_def demo_args_def configure_encoding_def
      write_to_pipe_def pipe_writer_loop_step_def)

text \<open>
  The status block is the other way to lose frames: with \<open>fps = 0\<close> and the status shown,
  the writer thread dies of \<open>ZeroDivisionError\<close> after the first frame, with the stream
  left open.
\<close>

lemma status_division_stops_writer:
  "run_schedule (demo_args\<lparr>fps := 0\<rparr>) [WriterStep, Submit 0 [0, 0, 0], WriterStep, Submit 1 [1],
      WriterStep] configure_encoding =
     Returns \<lparr>stop_piping = False, lock_writing = False, images_to_pipe = [(1, [1])],
       max_images_on_pipe_buffer = Some 3, count = 1, stdin = [0, 0, 0], stdin_closed = False,
       writer = Crashed\<rparr>"
  by (simp add: demo_args_def configure_encoding_def write_to_pipe_def pipe_writer_loop_step_def
      after_count_def status_raises_def)

text \<open>
  Claim C5. The claim fails: \<open>write_to_pipe\<close> has no test for an index that is already
  buffered and raises nothing. As amended: for every frame index that is buffered and
  not yet written, a second \<open>write_to_pipe\<close> of the same index, once the buffer holds
  fewer than \<open>max_images_on_pipe_buffer\<close> images, returns normally and replaces the
  buffered payload of that index by the new one; the other buffered frames, the order of
  the keys, the stream and the counter stay as they are. While the buffer is full the
  call waits.
\<close>

theorem write_to_pipe_replaces_buffered_frame:
  assumes "map_of (images_to_pipe s) i = Some old"
    and "max_images_on_pipe_buffer s = Some m"
  shows "(int (length (images_to_pipe s)) < m \<longrightarrow>
           (\<exists>s1. write_to_pipe i new s = Returns s1 \<and>
                 map_of (images_to_pipe s1) = (map_of (images_to_pipe s))(i \<mapsto> new) \<and>
                 map fst (images_to_pipe s1) = map fst (images_to_pipe s) \<and>
                 stdin s1 = stdin s \<and> count s1 = count s)) \<and>
         (m \<le> int (length (images_to_pipe s)) \<longrightarrow> write_to_pipe i new s = Blocks)"
proof -
  from assms(1) have key: "i \<in> fst ` set (images_to_pipe s)"
    by (metis map_of_eq_None_iff option.distinct(1))
  then have "map fst (AList.update i new (images_to_pipe s)) = map fst (images_to_pipe s)"
    by (simp add: update_keys)
  then show ?thesis
    using assms(2) by (simp add: write_to_pipe_def update_conv')
qed

theorem write_to_pipe_replaces_buffered_frame_witness:
  "map_of (images_to_pipe dup_state) 0 = Some [1] \<and>
   max_images_on_pipe_buffer dup_state = Some 3 \<and>
   int (length (images_to_pipe dup_state)) < 3 \<and>
   (\<exists>s1. write_to_pipe 0 [2] dup_state = Returns s1 \<and>
         map_of (images_to_pipe s1) 0 = Some [2] \<and>
         map fst (images_to_pipe s1) = [0] \<and> stdin s1 = [] \<and> count s1 = 0)"
proof -
  have a: "map_of (images_to_pipe dup_state) 0 = Some [1]" by (simp add: dup_state_def)
  have b: "max_images_on_pipe_buffer dup_state = Some 3" by (simp add: dup_state_def)
  have c: "int (length (images_to_pipe dup_state)) < 3" by (simp add: dup_state_def)
  from write_to_pipe_replaces_buffered_frame[OF a b, of "[2]"] c
  obtain s1 where r: "write_to_pipe 0 [2] dup_state = Returns s1"
    and m: "map_of (images_to_pipe s1) = (map_of (images_to_pipe dup_state))(0 \<mapsto> [2])"
    and k: "map fst (images_to_pipe s1) = map fst (images_to_pipe dup_state)"
    and o: "stdin s1 = stdin dup_state" and n: "count s1 = count dup_state"
    by blast
  have "write_to_pipe 0 [2] dup_state = Returns s1 \<and>
         map_of (images_to_pipe s1) 0 = Some [2] \<and>
         map fst (images_to_pipe s1) = [0] \<and> stdin s1 = [] \<and> count s1 = 0"
    unfolding m k o n using r by (simp add: dup_state_def)
  then have d: "\<exists>s1. write_to_pipe 0 [2] dup_state = Returns s1 \<and>
         map_of (images_to_pipe s1) 0 = Some [2] \<and>
         map fst (images_to_pipe s1) = [0] \<and> stdin s1 = [] \<and> count s1 = 0"
    by (rule exI)
  show ?thesis by (rule conjI[OF a conjI[OF b conjI[OF c d]]])
qed

text \<open>
  The counterexample to C5 as stated: frame 0 is submitted with payload \<open>[1]\<close> while the
  writer runs, and is still buffered; a second submission of index 0 with payload \<open>[2]\<close>
  returns, and the buffered frame is now \<open>[2]\<close>.
\<close>

theorem duplicate_submit_counterexample:
  "run_schedule demo_args [WriterStep, Submit 0 [1]] configure_encoding = Returns dup_state \<and>
   map_of (images_to_pipe dup_state) 0 = Some [1] \<and>
   write_to_pipe 0 [2] dup_state = Returns (dup_state\<lparr>images_to_pipe := [(0, [2])]\<rparr>)"
  by (simp add: demo_args_def configure_encoding_def write_to_pipe_def
      pipe_writer_loop_step_def dup_state_def)

section \<open>Verification of the interpolator\<close>

subsection \<open>Rounding\<close>















subsection \<open>Array operations\<close>

lemma result_type_same: "result_type d d = d"
  by (cases d) simp_all









lemma np_binop_same_length:
  assumes "dtype a = d" "dtype b = d" "length (items a) = length (items b)"
  shows "np_binop f a b = Inr \<lparr>dtype = d, items = map2 (f d) (items a) (items b)\<rparr>"
  using assms by (simp add: np_binop_def broadcast2_def result_type_same)

lemma exact_stepE:
  assumes "exact_step d t c"
  obtains x y where "t = FNum x" "c = FNum y" "representable d x" "representable d (x - y)"
  using assms by (cases t; cases c) simp_all

lemma interpolate_ratio_one:
  assumes dt: "dtype (current sc) = d" "dtype (target sc) = d" "dtype (ratios sc) = d"
    and ones: "items (ratios sc) = replicate (length (items (target sc))) (FNum 1)"
    and rep: "list_all2 (exact_step d) (items (target sc)) (items (current sc))"
  shows "interpolate sc = Inr (target sc)"
proof -
  let ?t = "items (target sc)" and ?c = "items (current sc)"
  let ?n = "length ?t"
  from rep have len: "length ?c = ?n" by (simp add: list_all2_lengthD)
  have el: "\<exists>x y. ?t ! i = FNum x \<and> ?c ! i = FNum y \<and> fl_round d x = FNum x \<and>
      fl_round d (x - y) = FNum (x - y)" if "i < ?n" for i
    using list_all2_nthD[OF rep that] by (auto elim!: exact_stepE simp: representable_def)
  define ds where "ds = map2 (fsub d) ?t ?c"
  define ms where "ms = map2 (fmul d) ds (items (ratios sc))"
  have dl: "length ds = ?n" by (simp add: ds_def len)
  have ms: "ms = ds"
  proof (rule nth_equalityI)
    show "length ms = length ds" by (simp add: ms_def ones dl)
    fix i assume "i < length ms"
    then have i: "i < ?n" by (simp add: ms_def ones dl)
    from el[OF i] show "ms ! i = ds ! i"
      using i by (auto simp: ms_def ds_def ones len fsub_def)
  qed
  have cs: "map2 (fadd d) ?c ds = ?t"
  proof (rule nth_equalityI)
    show "length (map2 (fadd d) ?c ds) = length ?t" by (simp add: dl len)
    fix i assume "i < length (map2 (fadd d) ?c ds)"
    then have i: "i < ?n" by (simp add: dl len)
    from el[OF i] show "map2 (fadd d) ?c ds ! i = ?t ! i"
      using i by (auto simp: ds_def len fsub_def)
  qed
  have 1: "np_binop fsub (target sc) (current sc) = Inr \<lparr>dtype = d, items = ds\<rparr>"
    unfolding ds_def by (rule np_binop_same_length) (simp_all add: dt len)
  have "np_binop fmul \<lparr>dtype = d, items = ds\<rparr> (ratios sc) = Inr \<lparr>dtype = d, items = ms\<rparr>"
    unfolding ms_def
    by (subst np_binop_same_length[where d = d]) (simp_all add: dt ones dl)
  then have 2: "np_binop fmul \<lparr>dtype = d, items = ds\<rparr> (ratios sc) = Inr \<lparr>dtype = d, items = ds\<rparr>"
    by (simp only: ms)
  have 3: "np_binop fadd (current sc) \<lparr>dtype = d, items = ds\<rparr> = Inr \<lparr>dtype = d, items = ?t\<rparr>"
    by (subst np_binop_same_length[where d = d]) (simp_all add: dt dl len cs)
  have "\<lparr>dtype = d, items = ?t\<rparr> = target sc" using dt(2) by simp
  then show ?thesis by (simp add: interpolate_def 1 2 3)
qed

text \<open>
  Claim C8. The claim fails in floating-point arithmetic: \<open>current + (target - current)\<close>
  is rounded twice and need not be \<open>target\<close>. As amended: for every interpolation channel
  whose ratio array is all ones, whose three arrays have one length and one float type,
  and whose current and target elements are finite numbers, one interpolation step makes
  \<open>current\<close> equal to \<open>target\<close> exactly whenever every target element and every difference
  \<open>target - current\<close> is a number of that float type, within its range and precision (as it
  is on a new channel, whose \<open>current\<close> is zero, and when \<open>current\<close> already equals
  \<open>target\<close>).
\<close>

theorem ratio_one_step_reaches_representable_target:
  assumes "map_of s name = Some sc"
    and "set_target fd (target sc) = Inr t"
    and "dtype (current sc) = d" "dtype t = d" "dtype (ratios sc) = d"
    and "items (ratios sc) = replicate (length (items t)) (FNum 1)"
    and "list_all2 (exact_step d) (items t) (items (current sc))"
  shows "\<exists>s1. interpolator_next name fd s = (s1, None) \<and>
           map_of s1 name = Some \<lparr>current = t, target = t, ratios = ratios sc\<rparr>"
proof -
  let ?sc1 = "sc\<lparr>target := t\<rparr>"
  have "interpolate ?sc1 = Inr (target ?sc1)"
    by (rule interpolate_ratio_one[where d = d]) (use assms in simp_all)
  then have "interpolate ?sc1 = Inr t" by simp
  then show ?thesis using assms(1,2)
    by (simp add: interpolator_next_def Let_def update_conv')
qed

theorem ratio_one_step_reaches_representable_target_witness:
  "map_of fft_channel ''mmv_fft'' =
     Some \<lparr>current = \<lparr>dtype = Float32, items = [FNum 0, FNum 0]\<rparr>,
           target = \<lparr>dtype = Float32, items = [FNum 0, FNum 0]\<rparr>,
           ratios = \<lparr>dtype = Float32, items = [FNum 1, FNum 1]\<rparr>\<rparr> \<and>
   exact_step Float32 (FNum 5) (FNum 0) \<and>
   (\<exists>s1. interpolator_next ''mmv_fft'' (Fill (FNum 5)) fft_channel = (s1, None) \<and>
         map_of s1 ''mmv_fft'' =
           Some \<lparr>current = \<lparr>dtype = Float32, items = [FNum 5, FNum 5]\<rparr>,
                 target = \<lparr>dtype = Float32, items = [FNum 5, FNum 5]\<rparr>,
                 ratios = \<lparr>dtype = Float32, items = [FNum 1, FNum 1]\<rparr>\<rparr>)"
proof -
  let ?sc = "\<lparr>current = \<lparr>dtype = Float32, items = [FNum 0, FNum 0]\<rparr>,
              target = \<lparr>dtype = Float32, items = [FNum 0, FNum 0]\<rparr>,
              ratios = \<lparr>dtype = Float32, items = [FNum 1, FNum 1]\<rparr>\<rparr>"
  let ?t = "\<lparr>dtype = Float32, items = [FNum 5, FNum 5]\<rparr>"
  have five: "fl_round Float32 5 = FNum 5" by code_simp
  have rep: "exact_step Float32 (FNum 5) (FNum 0)" by (simp add: representable_def five)
  have ch: "map_of fft_channel ''mmv_fft'' = Some ?sc" by code_simp
  have st: "set_target (Fill (FNum 5)) (target ?sc) = Inr ?t" by (simp add: five)
  have reps: "list_all2 (exact_step Float32) (items ?t) (items (current ?sc))"
    using rep by simp
  have "\<exists>s1. interpolator_next ''mmv_fft'' (Fill (FNum 5)) fft_channel = (s1, None) \<and>
         map_of s1 ''mmv_fft'' = Some \<lparr>current = ?t, target = ?t, ratios = ratios ?sc\<rparr>"
    by (rule ratio_one_step_reaches_representable_target[OF ch st _ _ _ _ reps])
      (simp_all add: numeral_2_eq_2)
  then have run: "\<exists>s1. interpolator_next ''mmv_fft'' (Fill (FNum 5)) fft_channel = (s1, None) \<and>
         map_of s1 ''mmv_fft'' =
           Some \<lparr>current = ?t, target = ?t, ratios = \<lparr>dtype = Float32, items = [FNum 1, FNum 1]\<rparr>\<rparr>"
    by simp
  show ?thesis by (rule conjI[OF ch conjI[OF rep run]])
qed

text \<open>
  The counterexample to C8 as stated: the channel of the FFT bars with ratio 1 reaches
  \<open>current = target = 1\<close> by one step; the next step, fed \<open>2^-30\<close>, computes in \<open>float32\<close>
  \<open>2^-30 - 1 = -1\<close> and \<open>1 + (-1) = 0\<close>: \<open>current\<close> is \<open>0\<close>, \<open>target\<close> is \<open>2^-30\<close>.
\<close>

theorem ratio_one_step_counterexample:
  "fst (interpolator_next ''mmv_fft'' (Fill (FNum 1)) fft_channel) = fft_channel_at_one \<and>
   interpolator_next ''mmv_fft'' (Fill (FNum (1 / 2 ^ 30))) fft_channel_at_one =
     (fft_channel_after, None) \<and>
   map_of fft_channel_after ''mmv_fft'' =
     Some \<lparr>current = \<lparr>dtype = Float32, items = [FNum 0, FNum 0]\<rparr>,
           target = \<lparr>dtype = Float32, items = [FNum (1 / 2 ^ 30), FNum (1 / 2 ^ 30)]\<rparr>,
           ratios = \<lparr>dtype = Float32, items = [FNum 1, FNum 1]\<rparr>\<rparr> \<and>
   FNum 0 \<noteq> FNum (1 / 2 ^ 30)"
  by code_simp



text \<open>
  The counterexample to C10 as stated: on a channel of two elements without a fixed
  ratio, adding \<open>2^127\<close> twice overflows the \<open>float32\<close> target to infinity, and so does
  feeding an infinity; \<open>current\<close> is then \<open>0 + (inf - 0) * 0\<close> in its first element, which
  is NaN and not 0.
\<close>

theorem linspace_channel_overflow_counterexample:
  "interpolator_steps overflowing_calls (add_interpolater ''mmv_rms_r'' 2 None []) =
     [(''mmv_rms_r'',
       \<lparr>current = \<lparr>dtype = Float64, items = [FNaN, FPosInf]\<rparr>,
        target = \<lparr>dtype = Float32, items = [FPosInf, FPosInf]\<rparr>,
        ratios = \<lparr>dtype = Float64, items = [FNum 0, FNum 1]\<rparr>\<rparr>)] \<and>
   interpolator_steps infinite_calls (add_interpolater ''mmv_rms_r'' 2 None []) =
     [(''mmv_rms_r'',
       \<lparr>current = \<lparr>dtype = Float64, items = [FNaN, FPosInf]\<rparr>,
        target = \<lparr>dtype = Float32, items = [FPosInf, FPosInf]\<rparr>,
        ratios = \<lparr>dtype = Float64, items = [FNum 0, FNum 1]\<rparr>\<rparr>)] \<and>
   FNaN \<noteq> FNum 0"
  by code_simp

section \<open>Verification of the audio analysis\<close>

lemma collect_total:
  "(\<And>x. x \<in> set xs \<Longrightarrow> f x = Inr (g x)) \<Longrightarrow> collect f xs = Inr (concat (map g xs))"
  by (induction xs) simp_all

lemma takeWhile_shorter: "\<exists>x\<in>set xs. \<not> P x \<Longrightarrow> length (takeWhile P xs) < length xs"
  by (induction xs) auto

lemma np_argmin_nonempty:
  assumes "xs \<noteq> []"
  shows "np_argmin xs = Inr (length (takeWhile (\<lambda>d. d \<noteq> Min (set xs)) xs))"
    and "length (takeWhile (\<lambda>d. d \<noteq> Min (set xs)) xs) < length xs"
proof -
  obtain y ys where xs: "xs = y # ys" using assms by (cases xs) auto
  have "fold min ys y = Min (set xs)" unfolding xs by (rule Min.set_eq_fold[symmetric])
  then show "np_argmin xs = Inr (length (takeWhile (\<lambda>d. d \<noteq> Min (set xs)) xs))"
    by (simp add: np_argmin_def xs)
  have "Min (set xs) \<in> set xs" using assms by (intro Min_in) simp_all
  then show "length (takeWhile (\<lambda>d. d \<noteq> Min (set xs)) xs) < length xs"
    by (intro takeWhile_shorter) auto
qed

lemma find_nearest_nonempty:
  assumes "array \<noteq> []"
  shows "find_nearest array v = Inr (nearest_index array v, array ! nearest_index array v)"
    and "nearest_index array v < length array"
proof -
  let ?ds = "map (\<lambda>x. \<bar>x - v\<bar>) array"
  have ne: "?ds \<noteq> []" using assms by simp
  show "find_nearest array v = Inr (nearest_index array v, array ! nearest_index array v)"
    by (simp add: find_nearest_def np_argmin_nonempty(1)[OF ne] nearest_index_def)
  show "nearest_index array v < length array"
    using np_argmin_nonempty(2)[OF ne] by (simp add: nearest_index_def)
qed

lemma process_freq_ok:
  assumes "fst fft \<noteq> []" "length (fst fft) \<le> length (snd fft)"
  shows "process_freq libs fft freq = Inr [scaled_magnitude libs fft freq]"
  using find_nearest_nonempty[OF assms(1), of freq] assms(2)
  by (simp add: process_freq_def scaled_magnitude_def Let_def)

lemma resample_ok:
  "original_sample_rate \<noteq> 0 \<Longrightarrow>
   resample libs data original_sample_rate new_sample_rate =
     Inr (resampled libs data original_sample_rate new_sample_rate)"
  by (simp add: resample_def resampled_def)

lemma process_band_ok:
  assumes "libs_ok libs" "original_sample_rate \<noteq> 0"
  shows "process_band ap libs original_sample_rate data b =
           Inr (band_magnitudes ap libs original_sample_rate data b)"
proof -
  let ?fft = "binned_fft libs (resampled libs data original_sample_rate (sample_rate b))
                (sample_rate b) original_sample_rate"
  have ok: "fst ?fft \<noteq> []" "length (fst ?fft) \<le> length (snd ?fft)"
    using assms(1) by (simp_all add: libs_ok_def)
  have "collect (process_freq libs ?fft) ws = Inr (map (scaled_magnitude libs ?fft) ws)" for ws
    using collect_total[of ws "process_freq libs ?fft" "\<lambda>w. [scaled_magnitude libs ?fft w]"]
    by (simp add: process_freq_ok[OF ok] concat_map_singleton)
  then show ?thesis
    by (simp add: process_band_def resample_ok[OF assms(2)] band_magnitudes_def)
qed

lemma processed_fft_ok:
  assumes "config ap = Some bands" "libs_ok libs" "original_sample_rate \<noteq> 0"
  shows "processed_fft ap libs batch original_sample_rate =
           Inr (fft_channel_outer ap libs batch original_sample_rate bands)"
proof -
  have inner: "collect (\<lambda>kv. process_band ap libs original_sample_rate data (snd kv)) bands =
      Inr (concat (map (\<lambda>kv. band_magnitudes ap libs original_sample_rate data (snd kv)) bands))"
    for data
    by (rule collect_total) (simp add: process_band_ok[OF assms(2,3)])
  show ?thesis
    unfolding processed_fft_def assms(1) fft_channel_outer_def option.case
    by (rule collect_total) (simp add: inner)
qed

lemma length_band_magnitudes:
  "length (band_magnitudes ap libs original_sample_rate data b) =
     length (list_items_in_between (piano_keys_frequencies ap) (start_freq b) (end_freq b))"
  by (simp add: band_magnitudes_def)

lemma length_fft_channel_outer:
  "length (fft_channel_outer ap libs batch original_sample_rate bands) =
     length batch * wanted_count ap bands"
  by (simp add: fft_channel_outer_def length_concat comp_def length_band_magnitudes
      wanted_count_def sum_list_triv)

lemma get_info_ok:
  assumes "config ap = Some bands" "libs_ok libs" "original_sample_rate \<noteq> 0" "2 \<le> length batch"
  shows "get_info_on_audio_slice ap libs batch original_sample_rate =
           ([(''average_amplitudes'', average_amplitudes libs batch),
             (''standard_deviations'', standard_deviations batch),
             (''fft'', Magnitudes (fft_channel_outer ap libs batch original_sample_rate bands))],
            None)"
  using assms(4)
  by (simp add: get_info_on_audio_slice_def processed_fft_ok[OF assms(1,2,3)])

lemma demo_float:
  "float_add demo_libs a b = Fin (a + b)"
  "float_div demo_libs a c = Fin (a / of_int c)"
  "float_round demo_libs x n = Fin (of_int (rint (x * 10 ^ n)) / 10 ^ n)"
  by (simp_all add: demo_libs_def)

lemma demo_libs_ok: "libs_ok demo_libs"
  by (simp add: libs_ok_def demo_libs_def)

lemma demo_config:
  "config demo_processing =
     Some [(''bass'', \<lparr>sample_rate = 48000, start_freq = 50, end_freq = 200\<rparr>),
           (''treble'', \<lparr>sample_rate = 48000, start_freq = 500, end_freq = 2000\<rparr>)]"
  by (simp add: demo_processing_def)

lemma demo_band_magnitudes:
  "band_magnitudes demo_processing demo_libs r data
     \<lparr>sample_rate = 48000, start_freq = 50, end_freq = 200\<rparr> = [\<bar>sum_list data\<bar> * 6]"
  "band_magnitudes demo_processing demo_libs r data
     \<lparr>sample_rate = 48000, start_freq = 500, end_freq = 2000\<rparr> = [\<bar>sum_list data\<bar> * 12]"
  by (simp_all add: band_magnitudes_def demo_processing_def demo_libs_def list_items_in_between_def
      scaled_magnitude_def nearest_index_def resampled_def Let_def)




text \<open>
  Claim C7. For every input array and every sample rate \<open>r\<close>, \<open>resample\<close> with both rates
  equal to \<open>r\<close> returns the input array itself.
\<close>

theorem resample_same_rate_is_identity:
  "resample libs data r r = Inr data"
  by (simp add: resample_def)

text \<open>
  Claim C6. For every band configuration, every batch of at least two channels and every
  source sample rate other than zero, with an FFT that returns a value for each of its
  bins, the analysis yields its three results without an exception, and the length of the
  \<open>fft\<close> sequence is the number of channels times the number of note frequencies inside
  the bands' ranges summed over the bands: it does not depend on the audio data or the
  rate.
\<close>

theorem fft_length_depends_on_configuration_only:
  assumes "config ap = Some bands" "libs_ok libs" "original_sample_rate \<noteq> 0"
    and "2 \<le> length batch"
  shows "\<exists>avg std p. get_info_on_audio_slice ap libs batch original_sample_rate =
           ([avg, std, (''fft'', Magnitudes p)], None) \<and>
         length p = length batch * wanted_count ap bands"
  by (simp add: get_info_ok[OF assms] length_fft_channel_outer)

theorem fft_length_depends_on_configuration_only_witness:
  "config demo_processing =
     Some [(''bass'', \<lparr>sample_rate = 48000, start_freq = 50, end_freq = 200\<rparr>),
           (''treble'', \<lparr>sample_rate = 48000, start_freq = 500, end_freq = 2000\<rparr>)] \<and>
   libs_ok demo_libs \<and>
   wanted_count demo_processing
     [(''bass'', \<lparr>sample_rate = 48000, start_freq = 50, end_freq = 200\<rparr>),
      (''treble'', \<lparr>sample_rate = 48000, start_freq = 500, end_freq = 2000\<rparr>)] = 2 \<and>
   (\<exists>avg std p. get_info_on_audio_slice demo_processing demo_libs [[1, 2], [3, 4]] 44100 =
           ([avg, std, (''fft'', Magnitudes p)], None) \<and> length p = 4) \<and>
   (\<exists>avg std p. get_info_on_audio_slice demo_processing demo_libs [[5, 0, 0], [0, 7, 9]] 48000 =
           ([avg, std, (''fft'', Magnitudes p)], None) \<and> length p = 4)"
proof -
  let ?bands = "[(''bass'', \<lparr>sample_rate = 48000, start_freq = 50, end_freq = 200\<rparr>),
                 (''treble'', \<lparr>sample_rate = 48000, start_freq = 500, end_freq = 2000\<rparr>)]"
  have wc: "wanted_count demo_processing ?bands = 2"
    by (simp add: wanted_count_def demo_processing_def list_items_in_between_def)
  have r1: "(44100::int) \<noteq> 0" and r2: "(48000::int) \<noteq> 0" by simp_all
  have l1: "2 \<le> length [[1, 2], [3, 4::real]]" and l2: "2 \<le> length [[5, 0, 0], [0, 7, 9::real]]"
    by simp_all
  from fft_length_depends_on_configuration_only[OF demo_config demo_libs_ok r1 l1]
  have a: "\<exists>avg std p. get_info_on_audio_slice demo_processing demo_libs [[1, 2], [3, 4]] 44100 =
           ([avg, std, (''fft'', Magnitudes p)], None) \<and> length p = 4"
    by (simp add: wc)
  from fft_length_depends_on_configuration_only[OF demo_config demo_libs_ok r2 l2]
  have b: "\<exists>avg std p. get_info_on_audio_slice demo_processing demo_libs [[5, 0, 0], [0, 7, 9]] 48000 =
           ([avg, std, (''fft'', Magnitudes p)], None) \<and> length p = 4"
    by (simp add: wc)
  show ?thesis by (rule conjI[OF demo_config conjI[OF demo_libs_ok conjI[OF wc conjI[OF a b]]]])
qed

text \<open>
  Claim C3. The claim fails: the loop over the channels is the outer loop. As amended: for
  every valid band configuration and every stereo batch, the \<open>fft\<close> sequence lists the
  scaled magnitudes grouped by channel as the outer grouping and by band, in declaration
  order, as the inner grouping (all bands of channel 1, then all bands of channel 2).
\<close>

theorem fft_is_grouped_by_channel_then_band:
  assumes "config ap = Some bands" "libs_ok libs" "original_sample_rate \<noteq> 0"
    and "2 \<le> length batch"
  shows "\<exists>avg std. get_info_on_audio_slice ap libs batch original_sample_rate =
           ([avg, std,
             (''fft'',
              Magnitudes
                (concat (map (\<lambda>data.
                           concat (map (\<lambda>kv. band_magnitudes ap libs original_sample_rate data (snd kv))
                                     bands))
                         batch)))],
            None)"
  using get_info_ok[OF assms] by (simp add: fft_channel_outer_def)

theorem fft_is_grouped_by_channel_then_band_witness:
  "config demo_processing =
     Some [(''bass'', \<lparr>sample_rate = 48000, start_freq = 50, end_freq = 200\<rparr>),
           (''treble'', \<lparr>sample_rate = 48000, start_freq = 500, end_freq = 2000\<rparr>)] \<and>
   libs_ok demo_libs \<and>
   (\<exists>avg std. get_info_on_audio_slice demo_processing demo_libs [[1, 2], [3, 4]] 48000 =
           ([avg, std, (''fft'', Magnitudes [18, 36, 42, 84])], None))"
proof -
  have r: "(48000::int) \<noteq> 0" by simp
  have l: "2 \<le> length [[1, 2], [3, 4::real]]" by simp
  from fft_is_grouped_by_channel_then_band[OF demo_config demo_libs_ok r l]
  have a: "\<exists>avg std. get_info_on_audio_slice demo_processing demo_libs [[1, 2], [3, 4]] 48000 =
           ([avg, std, (''fft'', Magnitudes [18, 36, 42, 84])], None)"
    by (simp add: demo_band_magnitudes)
  show ?thesis by (rule conjI[OF demo_config conjI[OF demo_libs_ok a]])
qed

text \<open>
  The counterexample to C3 as stated: two bands with one note each and two channels. The
  code returns left-bass, left-treble, right-bass, right-treble; grouped by band as the
  specification says it would be left-bass, right-bass, left-treble, right-treble.
\<close>

theorem fft_band_outer_counterexample:
  "map_of (fst (get_info_on_audio_slice demo_processing demo_libs [[1, 2], [3, 4]] 48000)) ''fft'' =
     Some (Magnitudes [18, 36, 42, 84]) \<and>
   fft_band_outer demo_processing demo_libs [[1, 2], [3, 4]] 48000
     [(''bass'', \<lparr>sample_rate = 48000, start_freq = 50, end_freq = 200\<rparr>),
      (''treble'', \<lparr>sample_rate = 48000, start_freq = 500, end_freq = 2000\<rparr>)] =
     [18, 42, 36, 84]"
proof -
  have r: "(48000::int) \<noteq> 0" by simp
  have l: "2 \<le> length [[1, 2], [3, 4::real]]" by simp
  have "map_of (fst (get_info_on_audio_slice demo_processing demo_libs [[1, 2], [3, 4]] 48000))
      ''fft'' = Some (Magnitudes [18, 36, 42, 84])"
    by (simp add: get_info_ok[OF demo_config demo_libs_ok r l] fft_channel_outer_def
        demo_band_magnitudes)
  moreover have "fft_band_outer demo_processing demo_libs [[1, 2], [3, 4]] 48000
     [(''bass'', \<lparr>sample_rate = 48000, start_freq = 50, end_freq = 200\<rparr>),
      (''treble'', \<lparr>sample_rate = 48000, start_freq = 500, end_freq = 2000\<rparr>)] =
     [18, 42, 36, 84]"
    by (simp add: fft_band_outer_def demo_band_magnitudes)
  ultimately show ?thesis by (rule conjI)
qed






lemma power_bound: "\<bar>x :: rat\<bar> \<le> 2 ^ n \<Longrightarrow> \<bar>x\<bar> \<le> 2 powi int n"
  by simp




text \<open>
  The counterexample to C9 as stated. At 60 frames per second and 48000 samples per
  second, step 31 starts at sample 24799: \<open>1 / 60\<close> is rounded down, \<open>(1 / 60) * 31 * 48000\<close>
  is \<open>24799.999999999996\<close> in \<open>float64\<close>, and \<open>int\<close> truncates it, while
  \<open>floor(31 / 60 * 48000)\<close> is 24800. In the same way, at 49 frames and 49 samples per
  second step 1 starts at sample 0 and not at sample 1, so that the slice of two samples
  holds the samples 0 and 1 of the track, not 1 and 2. And with an audio offset of one
  step, step 0 takes its slice at the start of step 1, not at sample 0.
\<close>

theorem slice_start_counterexample:
  "this_time_in_samples 60 48000 (this_step 3600 0 31) = Inr 24799 \<and>
   \<lfloor>31 / 60 * 48000 :: rat\<rfloor> = 24800 \<and>
   slice_for_step demo_track [] 49 49 10 0 2 1 =
     Inr \<lparr>audio_slice = [[1, 2], [6, 7], [0, 0]], average_value = NaN\<rparr> \<and>
   \<lfloor>1 / 49 * 49 :: rat\<rfloor> = 1 \<and>
   slice_for_step demo_track [] 4 2 10 1 3 0 =
     Inr \<lparr>audio_slice = [[3, 4, 5], [8, 9, 10], [0, 0, 0]], average_value = NaN\<rparr>"
proof -
  have ts: "this_step 3600 0 31 = 31" "this_step 10 0 1 = 1" "this_step 10 1 0 = 1"
    by (simp_all add: this_step_def)
  have s: "this_time_in_samples 60 48000 31 = Inr 24799" "this_time_in_samples 49 49 1 = Inr 0"
    "this_time_in_samples 2 4 1 = Inr 2"
    by code_simp+
  have a: "slice_for_step demo_track [] 49 49 10 0 2 1 =
     Inr \<lparr>audio_slice = [[1, 2], [6, 7], [0, 0]], average_value = NaN\<rparr>"
    by (simp add: slice_for_step_def ts s slice_audio_def py_slice_def assign_prefix_def
        demo_track_def np_mean_def Let_def numeral_2_eq_2)
  have b: "slice_for_step demo_track [] 4 2 10 1 3 0 =
     Inr \<lparr>audio_slice = [[3, 4, 5], [8, 9, 10], [0, 0, 0]], average_value = NaN\<rparr>"
    by (simp add: slice_for_step_def ts s slice_audio_def py_slice_def assign_prefix_def
        demo_track_def np_mean_def Let_def numeral_2_eq_2 numeral_3_eq_3)
  have f1: "\<lfloor>31 / 60 * 48000 :: rat\<rfloor> = 24800" by simp
  have f2: "\<lfloor>1 / 49 * 49 :: rat\<rfloor> = 1" by simp
  show ?thesis
    unfolding ts by (rule conjI[OF s(1) conjI[OF f1 conjI[OF a[unfolded ts] conjI[OF f2 b[unfolded ts]]]]])
qed

lemma processed_fft_zero_rate:
  assumes "2 \<le> length batch" "config ap = Some ((k, b) # bands)" "sample_rate b \<noteq> 0"
  shows "processed_fft ap libs batch 0 = Inl ZeroDivisionError"
proof -
  obtain d ds where batch: "batch = d # ds" using assms(1) by (cases batch) auto
  have "process_band ap libs 0 d b = Inl ZeroDivisionError"
    using assms(3) by (simp add: process_band_def resample_def)
  then show ?thesis
    by (simp add: processed_fft_def assms(2) batch)
qed

lemma statistics_of_empty:
  "batch ! 0 = [] \<Longrightarrow> batch ! 1 = [] \<Longrightarrow>
   average_amplitudes libs batch = Triple NaN NaN NaN \<and>
   standard_deviations batch = Triple NaN NaN NaN"
  by (simp add: average_amplitudes_def standard_deviations_def np_median_def np_std_def)

text \<open>
  Claim C4. The claim fails: the code has no error \<open>InvalidAudioData\<close> and no test of the
  batch. As amended: the analysis never fails with \<open>InvalidAudioData\<close>. On an empty batch
  it yields NaN for every average amplitude and standard deviation and goes on; a source
  sample rate of zero with a first band of another rate raises \<open>ZeroDivisionError\<close> after
  these two results were yielded; and for every batch, with a source rate other than zero
  and an FFT that returns a value for each of its bins, no exception is raised at all.
\<close>

theorem analysis_failures_are_python_errors:
  "(2 \<le> length batch \<and> batch ! 0 = [] \<and> batch ! 1 = [] \<longrightarrow>
      take 2 (fst (get_info_on_audio_slice ap libs batch r)) =
        [(''average_amplitudes'', Triple NaN NaN NaN),
         (''standard_deviations'', Triple NaN NaN NaN)]) \<and>
   (2 \<le> length batch \<and> config ap = Some ((k, b) # bands) \<and> sample_rate b \<noteq> 0 \<longrightarrow>
      snd (get_info_on_audio_slice ap libs batch 0) = Some ZeroDivisionError) \<and>
   (2 \<le> length batch \<and> config ap = Some bands \<and> libs_ok libs \<and> r \<noteq> 0 \<longrightarrow>
      snd (get_info_on_audio_slice ap libs batch r) = None)"
proof (intro conjI impI)
  assume "2 \<le> length batch \<and> batch ! 0 = [] \<and> batch ! 1 = []"
  then show "take 2 (fst (get_info_on_audio_slice ap libs batch r)) =
        [(''average_amplitudes'', Triple NaN NaN NaN),
         (''standard_deviations'', Triple NaN NaN NaN)]"
    using statistics_of_empty[of batch libs]
    by (auto simp: get_info_on_audio_slice_def Let_def numeral_2_eq_2 split: sum.splits)
next
  assume "2 \<le> length batch \<and> config ap = Some ((k, b) # bands) \<and> sample_rate b \<noteq> 0"
  then show "snd (get_info_on_audio_slice ap libs batch 0) = Some ZeroDivisionError"
    using processed_fft_zero_rate[of batch ap k b bands libs]
    by (simp add: get_info_on_audio_slice_def Let_def)
next
  assume "2 \<le> length batch \<and> config ap = Some bands \<and> libs_ok libs \<and> r \<noteq> 0"
  then show "snd (get_info_on_audio_slice ap libs batch r) = None"
    using get_info_ok[of ap bands libs r batch] by simp
qed

theorem analysis_failures_are_python_errors_witness:
  "take 2 (fst (get_info_on_audio_slice demo_processing demo_libs [[], []] 48000)) =
        [(''average_amplitudes'', Triple NaN NaN NaN),
         (''standard_deviations'', Triple NaN NaN NaN)] \<and>
   snd (get_info_on_audio_slice demo_processing demo_libs [[1], [1]] 0) = Some ZeroDivisionError \<and>
   snd (get_info_on_audio_slice demo_processing demo_libs [[1], [1]] 48000) = None"
proof -
  note th = analysis_failures_are_python_errors[where libs = demo_libs and ap = demo_processing]
  have a: "take 2 (fst (get_info_on_audio_slice demo_processing demo_libs [[], []] 48000)) =
        [(''average_amplitudes'', Triple NaN NaN NaN),
         (''standard_deviations'', Triple NaN NaN NaN)]"
    using th[of "[[], []]" 48000] by simp
  have b: "snd (get_info_on_audio_slice demo_processing demo_libs [[1], [1]] 0) =
      Some ZeroDivisionError"
    using th[of "[[1], [1]]" _ "''bass''"
        "\<lparr>sample_rate = 48000, start_freq = 50, end_freq = 200\<rparr>"
        "[(''treble'', \<lparr>sample_rate = 48000, start_freq = 500, end_freq = 2000\<rparr>)]"]
    by (simp add: demo_config)
  have c: "snd (get_info_on_audio_slice demo_processing demo_libs [[1], [1]] 48000) = None"
    using th[of "[[1], [1]]" 48000] demo_config demo_libs_ok by simp
  show ?thesis by (rule conjI[OF a conjI[OF b c]])
qed

text \<open>
  The counterexample to C4 as stated: an empty batch, analysed with no band configured so
  that no library is called, yields three results and no exception; and a batch analysed
  with the source rate 0 ends with \<open>ZeroDivisionError\<close>.
\<close>

theorem invalid_audio_data_counterexample:
  "get_info_on_audio_slice (demo_processing\<lparr>config := Some []\<rparr>) demo_libs [[], []] 48000 =
     ([(''average_amplitudes'', Triple NaN NaN NaN),
       (''standard_deviations'', Triple NaN NaN NaN),
       (''fft'', Magnitudes [])], None) \<and>
   get_info_on_audio_slice demo_processing demo_libs [[1], [1]] 0 =
     ([(''average_amplitudes'', Triple (Fin 1) (Fin 1) (Fin 1)),
       (''standard_deviations'', Triple (Fin 0) (Fin 0) (Fin 0))], Some ZeroDivisionError)"
proof -
  have a: "processed_fft (demo_processing\<lparr>config := Some []\<rparr>) demo_libs [[], []] 48000 = Inr []"
    by (simp add: processed_fft_def)
  have b: "processed_fft demo_processing demo_libs [[1], [1]] 0 = Inl ZeroDivisionError"
    by (rule processed_fft_zero_rate[OF _ demo_config]) simp_all
  have c: "average_amplitudes demo_libs [[1], [1]] = Triple (Fin 1) (Fin 1) (Fin 1)"
    by (simp add: average_amplitudes_def np_median_def demo_float rint_def Let_def)
  have d: "standard_deviations [[1], [1]] = Triple (Fin 0) (Fin 0) (Fin 0)"
    by (simp add: standard_deviations_def np_std_def Let_def)
  show ?thesis
    using statistics_of_empty[of "[[], []]" demo_libs]
    by (simp add: get_info_on_audio_slice_def a b c d)
qed

end
